theory Spec2Isabelle
  imports Main "HOL-Library.Word"
begin

section \<open>Byte buffers and the struct field codec\<close>

text \<open>
  The control messages of \<^verbatim>\<open>fusion_engine_client/messages/control.py\<close> serialise
  themselves with Python's \<^verbatim>\<open>struct.pack_into\<close> and \<^verbatim>\<open>struct.unpack_from\<close>.
  A \<^verbatim>\<open>bytearray\<close> is a list of bytes; Python integers are unbounded, so field
  values are \<open>int\<close>. The exceptions the code raises for an offset that is a
  \<^verbatim>\<open>Py_ssize_t\<close> are values of \<open>error\<close>.
\<close>

type_synonym byte = "8 word"

datatype error = StructError | ValueError | IndexError

text \<open>
  The format strings used are \<^verbatim>\<open>'<IB3x'\<close>, \<^verbatim>\<open>'<H2x'\<close> and \<^verbatim>\<open>'<I'\<close>. The
  prefix \<^verbatim>\<open><\<close> selects little-endian byte order, standard sizes and no alignment;
  a repeat count \<^verbatim>\<open>3x\<close> is three codes \<^verbatim>\<open>x\<close>.
\<close>

datatype fmt_code = FmtI | FmtH | FmtB | FmtX

fun code_size :: "fmt_code \<Rightarrow> nat" where
  "code_size FmtI = 4"
| "code_size FmtH = 2"
| "code_size FmtB = 1"
| "code_size FmtX = 1"

fun calcsize :: "fmt_code list \<Rightarrow> nat" where
  "calcsize [] = 0"
| "calcsize (c # cs) = code_size c + calcsize cs"

text \<open>The number of arguments a format consumes: pad bytes take none.\<close>

fun num_args :: "fmt_code list \<Rightarrow> nat" where
  "num_args [] = 0"
| "num_args (FmtX # cs) = num_args cs"
| "num_args (c # cs) = Suc (num_args cs)"

fun le_bytes :: "nat \<Rightarrow> int \<Rightarrow> byte list" where
  "le_bytes 0 v = []"
| "le_bytes (Suc n) v = word_of_int (v mod 256) # le_bytes n (v div 256)"

fun le_int :: "byte list \<Rightarrow> int" where
  "le_int [] = 0"
| "le_int (b # bs) = uint b + 256 * le_int bs"

definition in_range :: "fmt_code \<Rightarrow> int \<Rightarrow> bool" where
  "in_range c v = (0 \<le> v \<and> v < 2 ^ (8 * code_size c))"

text \<open>
  Packing the arguments into a window of \<open>calcsize fmt\<close> bytes. The window is cleared
  first and the fields are then written in order, so when an argument is out of range
  for its code the fields before it are written, the rest of the window is zero, and
  \<^verbatim>\<open>struct.error\<close> is raised. The result is the window together with the error, if any.
\<close>

fun s_pack_internal :: "fmt_code list \<Rightarrow> int list \<Rightarrow> byte list \<times> error option" where
  "s_pack_internal [] vs = ([], None)"
| "s_pack_internal (FmtX # cs) vs =
     (case s_pack_internal cs vs of (bs, e) \<Rightarrow> (0 # bs, e))"
| "s_pack_internal (c # cs) [] = (replicate (calcsize (c # cs)) 0, Some StructError)"
| "s_pack_internal (c # cs) (v # vs) =
     (if in_range c v
      then (case s_pack_internal cs vs of (bs, e) \<Rightarrow> (le_bytes (code_size c) v @ bs, e))
      else (replicate (calcsize (c # cs)) 0, Some StructError))"

fun s_unpack_internal :: "fmt_code list \<Rightarrow> byte list \<Rightarrow> int list" where
  "s_unpack_internal [] bs = []"
| "s_unpack_internal (FmtX # cs) bs = s_unpack_internal cs (drop 1 bs)"
| "s_unpack_internal (c # cs) bs =
     le_int (take (code_size c) bs) # s_unpack_internal cs (drop (code_size c) bs)"

text \<open>
  The position at which a window of \<open>sz\<close> bytes starts in a buffer of \<open>len\<close> bytes,
  for Python's offset: a negative offset counts from the end of the buffer. Every
  failure of this check is \<^verbatim>\<open>struct.error\<close>.

  The \<^verbatim>\<open>struct\<close> functions convert the offset to a C \<^verbatim>\<open>Py_ssize_t\<close> before
  this check. An offset outside that range never reaches it: \<^verbatim>\<open>unpack_from\<close>
  raises \<^verbatim>\<open>OverflowError\<close> and \<^verbatim>\<open>pack_into\<close> raises \<^verbatim>\<open>IndexError\<close> there.
  Such offsets are outside \<open>window_start\<close>; a property that names the error
  raised for an offset that does not fit takes the offset in \<open>ssize_t_range\<close>
  (64-bit \<^verbatim>\<open>Py_ssize_t\<close>).
\<close>

definition window_start :: "nat \<Rightarrow> nat \<Rightarrow> int \<Rightarrow> error + nat" where
  "window_start sz len offset =
     (if offset < 0 \<and> offset + int sz > 0 then Inl StructError
      else if offset < 0 \<and> offset + int len < 0 then Inl StructError
      else (let off = (if offset < 0 then offset + int len else offset)
            in if int len - off < int sz then Inl StructError else Inr (nat off)))"

definition ssize_t_range :: "int \<Rightarrow> bool" where
  "ssize_t_range n = (- (2 ^ 63) \<le> n \<and> n < 2 ^ 63)"

text \<open>
  \<^verbatim>\<open>struct.pack_into(fmt, buffer, offset, *vs)\<close>: the contents of the buffer after the
  call, and the error raised, if any. The buffer is never resized.
\<close>

definition struct_pack_into ::
  "fmt_code list \<Rightarrow> byte list \<Rightarrow> int \<Rightarrow> int list \<Rightarrow> byte list \<times> error option" where
  "struct_pack_into fmt buffer offset vs =
     (if length vs \<noteq> num_args fmt then (buffer, Some StructError)
      else (case window_start (calcsize fmt) (length buffer) offset of
              Inl e \<Rightarrow> (buffer, Some e)
            | Inr start \<Rightarrow>
                (case s_pack_internal fmt vs of
                   (w, e) \<Rightarrow> (take start buffer @ w @ drop (start + calcsize fmt) buffer, e))))"

text \<open>\<^verbatim>\<open>struct.unpack_from(fmt, buffer=buffer, offset=offset)\<close>.\<close>

definition struct_unpack_from :: "fmt_code list \<Rightarrow> byte list \<Rightarrow> int \<Rightarrow> error + int list" where
  "struct_unpack_from fmt buffer offset =
     (case window_start (calcsize fmt) (length buffer) offset of
        Inl e \<Rightarrow> Inl e
      | Inr start \<Rightarrow> Inr (s_unpack_internal fmt (take (calcsize fmt) (drop start buffer))))"

text \<open>
  What \<^verbatim>\<open>pack\<close> returns: the buffer when \<^verbatim>\<open>return_buffer\<close> is true, a byte count
  otherwise.
\<close>

datatype pack_ret = RetBuffer "byte list" | RetCount int

section \<open>CommandResponseMessage\<close>

datatype Response =
  OK | UNSUPPORTED_CMD_VERSION | UNSUPPORTED_FEATURE | VALUE_ERROR | INSUFFICIENT_SPACE
| EXECUTION_FAILURE

fun Response_value :: "Response \<Rightarrow> int" where
  "Response_value OK = 0"
| "Response_value UNSUPPORTED_CMD_VERSION = 1"
| "Response_value UNSUPPORTED_FEATURE = 2"
| "Response_value VALUE_ERROR = 3"
| "Response_value INSUFFICIENT_SPACE = 4"
| "Response_value EXECUTION_FAILURE = 5"

text \<open>
  The members are declared with a trailing comma (\<^verbatim>\<open>OK = 0,\<close>); for an
  \<^verbatim>\<open>IntEnum\<close> the value of a member declared with the tuple \<^verbatim>\<open>(0,)\<close> is
  \<^verbatim>\<open>int(0)\<close>. \<^verbatim>\<open>Response(v)\<close> is the member with value \<open>v\<close>, or
  \<^verbatim>\<open>ValueError\<close>.
\<close>

definition Response_call :: "int \<Rightarrow> error + Response" where
  "Response_call v =
     (if v = 0 then Inr OK
      else if v = 1 then Inr UNSUPPORTED_CMD_VERSION
      else if v = 2 then Inr UNSUPPORTED_FEATURE
      else if v = 3 then Inr VALUE_ERROR
      else if v = 4 then Inr INSUFFICIENT_SPACE
      else if v = 5 then Inr EXECUTION_FAILURE
      else Inl ValueError)"

text \<open>
  The attribute \<^verbatim>\<open>self.response\<close> holds either a member of the enumeration or a plain
  integer (\<^verbatim>\<open>__str__\<close> tells them apart with \<^verbatim>\<open>isinstance\<close>).
\<close>

datatype response_field = is_Member: Member Response | Plain int

fun response_int :: "response_field \<Rightarrow> int" where
  "response_int (Member r) = Response_value r"
| "response_int (Plain n) = n"

record CommandResponseMessage =
  source_sequence_num :: int
  response :: response_field

definition CommandResponseMessage_FORMAT :: "fmt_code list" where
  "CommandResponseMessage_FORMAT = [FmtI, FmtB, FmtX, FmtX, FmtX]"

definition CommandResponseMessage_SIZE :: nat where
  "CommandResponseMessage_SIZE = calcsize CommandResponseMessage_FORMAT"

definition CommandResponseMessage_calcsize :: nat where
  "CommandResponseMessage_calcsize = CommandResponseMessage_SIZE"

definition CommandResponseMessage_init :: CommandResponseMessage where
  "CommandResponseMessage_init = \<lparr>source_sequence_num = 0, response = Member OK\<rparr>"

text \<open>
  \<^verbatim>\<open>pack\<close> returns the contents of the buffer object after the call (the caller's
  buffer, a writable \<^verbatim>\<open>bytearray\<close>, or the one allocated when
  \<^verbatim>\<open>buffer is None\<close>) and either the raised error or the returned value. After
  the write the code assigns \<^verbatim>\<open>offset = CommandResponseMessage._SIZE\<close>.
\<close>

definition CommandResponseMessage_pack ::
  "CommandResponseMessage \<Rightarrow> byte list option \<Rightarrow> int \<Rightarrow> bool \<Rightarrow> byte list \<times> (error + pack_ret)" where
  "CommandResponseMessage_pack self buffer offset return_buffer =
     (let buffer = (case buffer of None \<Rightarrow> replicate CommandResponseMessage_calcsize 0
                                 | Some b \<Rightarrow> b);
          initial_offset = offset
      in case struct_pack_into CommandResponseMessage_FORMAT buffer offset
                [source_sequence_num self, response_int (response self)] of
           (buffer, Some e) \<Rightarrow> (buffer, Inl e)
         | (buffer, None) \<Rightarrow>
             (let offset = int CommandResponseMessage_SIZE
              in if return_buffer then (buffer, Inr (RetBuffer buffer))
                 else (buffer, Inr (RetCount (offset - initial_offset)))))"

text \<open>
  \<^verbatim>\<open>unpack\<close> returns the instance after the call and either the raised error or the
  returned count. The tuple assignment happens only when \<^verbatim>\<open>unpack_from\<close> returned;
  the \<^verbatim>\<open>ValueError\<close> of the enum conversion is caught and the plain integer stays.
\<close>

definition CommandResponseMessage_unpack ::
  "CommandResponseMessage \<Rightarrow> byte list \<Rightarrow> int \<Rightarrow> CommandResponseMessage \<times> (error + int)" where
  "CommandResponseMessage_unpack self buffer offset =
     (let initial_offset = offset
      in case struct_unpack_from CommandResponseMessage_FORMAT buffer offset of
           Inl e \<Rightarrow> (self, Inl e)
         | Inr [seq, resp] \<Rightarrow>
             (let self = self\<lparr>source_sequence_num := seq, response := Plain resp\<rparr>;
                  offset = int CommandResponseMessage_SIZE
              in case Response_call (response_int (response self)) of
                   Inr r \<Rightarrow> (self\<lparr>response := Member r\<rparr>, Inr (offset - initial_offset))
                 | Inl ValueError \<Rightarrow> (self, Inr (offset - initial_offset))
                 | Inl e \<Rightarrow> (self, Inl e))
         | Inr _ \<Rightarrow> (self, Inl ValueError))"

section \<open>MessageRequest\<close>

text \<open>
  The enumeration \<^verbatim>\<open>MessageType\<close> is declared in \<^verbatim>\<open>defs\<close>, which is not part of
  these sources. A member is identified by its value, and the list of the values of
  the declared members is a parameter \<open>members\<close> of whatever converts an integer to
  a member. \<^verbatim>\<open>MessageType(v)\<close> is the call of an enumeration class: it returns the
  member with value \<open>v\<close> and raises \<^verbatim>\<open>ValueError\<close> when there is none.
\<close>

datatype MessageType = MessageType_member int

fun MessageType_value :: "MessageType \<Rightarrow> int" where
  "MessageType_value (MessageType_member v) = v"

definition MessageType_call :: "int list \<Rightarrow> int \<Rightarrow> error + MessageType" where
  "MessageType_call members v =
     (if v \<in> set members then Inr (MessageType_member v) else Inl ValueError)"

record MessageRequest =
  message_type :: MessageType

definition MessageRequest_FORMAT :: "fmt_code list" where
  "MessageRequest_FORMAT = [FmtH, FmtX, FmtX]"

definition MessageRequest_SIZE :: nat where
  "MessageRequest_SIZE = calcsize MessageRequest_FORMAT"

definition MessageRequest_calcsize :: nat where
  "MessageRequest_calcsize = MessageRequest_SIZE"

definition MessageRequest_pack ::
  "MessageRequest \<Rightarrow> byte list option \<Rightarrow> int \<Rightarrow> bool \<Rightarrow> byte list \<times> (error + pack_ret)" where
  "MessageRequest_pack self buffer offset return_buffer =
     (let buffer = (case buffer of None \<Rightarrow> replicate MessageRequest_calcsize 0
                                 | Some b \<Rightarrow> b);
          initial_offset = offset
      in case struct_pack_into MessageRequest_FORMAT buffer offset
                [MessageType_value (message_type self)] of
           (buffer, Some e) \<Rightarrow> (buffer, Inl e)
         | (buffer, None) \<Rightarrow>
             (let offset = offset + int MessageRequest_SIZE
              in if return_buffer then (buffer, Inr (RetBuffer buffer))
                 else (buffer, Inr (RetCount (offset - initial_offset)))))"

text \<open>
  The unpacked value is held in a local variable; \<^verbatim>\<open>self.message_type\<close> is assigned
  only after \<^verbatim>\<open>MessageType(message_type)\<close> returned, and its \<^verbatim>\<open>ValueError\<close> is
  not caught.
\<close>

definition MessageRequest_unpack ::
  "int list \<Rightarrow> MessageRequest \<Rightarrow> byte list \<Rightarrow> int \<Rightarrow> MessageRequest \<times> (error + int)" where
  "MessageRequest_unpack members self buffer offset =
     (let initial_offset = offset
      in case struct_unpack_from MessageRequest_FORMAT buffer offset of
           Inl e \<Rightarrow> (self, Inl e)
         | Inr [] \<Rightarrow> (self, Inl IndexError)
         | Inr (message_type' # _) \<Rightarrow>
             (let offset = offset + int MessageRequest_SIZE
              in case MessageType_call members message_type' of
                   Inl e \<Rightarrow> (self, Inl e)
                 | Inr t \<Rightarrow> (self\<lparr>message_type := t\<rparr>, Inr (offset - initial_offset))))"

section \<open>ResetRequest\<close>

record ResetRequest =
  reset_mask :: int

definition ResetRequest_FORMAT :: "fmt_code list" where
  "ResetRequest_FORMAT = [FmtI]"

definition ResetRequest_SIZE :: nat where
  "ResetRequest_SIZE = calcsize ResetRequest_FORMAT"

definition ResetRequest_calcsize :: nat where
  "ResetRequest_calcsize = ResetRequest_SIZE"

definition ResetRequest_init :: ResetRequest where
  "ResetRequest_init = \<lparr>reset_mask = 0\<rparr>"

definition ResetRequest_pack ::
  "ResetRequest \<Rightarrow> byte list option \<Rightarrow> int \<Rightarrow> bool \<Rightarrow> byte list \<times> (error + pack_ret)" where
  "ResetRequest_pack self buffer offset return_buffer =
     (let buffer = (case buffer of None \<Rightarrow> replicate ResetRequest_calcsize 0
                                 | Some b \<Rightarrow> b)
      in case struct_pack_into ResetRequest_FORMAT buffer offset [reset_mask self] of
           (buffer, Some e) \<Rightarrow> (buffer, Inl e)
         | (buffer, None) \<Rightarrow>
             (if return_buffer then (buffer, Inr (RetBuffer buffer))
              else (buffer, Inr (RetCount (int ResetRequest_calcsize)))))"

definition ResetRequest_unpack ::
  "ResetRequest \<Rightarrow> byte list \<Rightarrow> int \<Rightarrow> ResetRequest \<times> (error + int)" where
  "ResetRequest_unpack self buffer offset =
     (let initial_offset = offset
      in case struct_unpack_from ResetRequest_FORMAT buffer offset of
           Inl e \<Rightarrow> (self, Inl e)
         | Inr [m] \<Rightarrow>
             (let self = self\<lparr>reset_mask := m\<rparr>;
                  offset = offset + int ResetRequest_SIZE
              in (self, Inr (offset - initial_offset)))
         | Inr _ \<Rightarrow> (self, Inl ValueError))"

section \<open>Valid field values\<close>

text \<open>
  The values a field can hold such that \<^verbatim>\<open>pack\<close> can encode it: the sequence number
  and the reset mask are unsigned 32-bit values, the response is a member of
  \<^verbatim>\<open>Response\<close> or a plain integer that fits a byte, and the message type is a
  declared member of \<^verbatim>\<open>MessageType\<close> whose value fits 16 bits.
\<close>

definition valid_CommandResponseMessage :: "CommandResponseMessage \<Rightarrow> bool" where
  "valid_CommandResponseMessage x =
     (0 \<le> source_sequence_num x \<and> source_sequence_num x < 2 ^ 32 \<and>
      0 \<le> response_int (response x) \<and> response_int (response x) < 2 ^ 8)"

definition valid_MessageRequest :: "int list \<Rightarrow> MessageRequest \<Rightarrow> bool" where
  "valid_MessageRequest members x =
     (MessageType_value (message_type x) \<in> set members \<and>
      0 \<le> MessageType_value (message_type x) \<and> MessageType_value (message_type x) < 2 ^ 16)"

definition valid_ResetRequest :: "ResetRequest \<Rightarrow> bool" where
  "valid_ResetRequest x = (0 \<le> reset_mask x \<and> reset_mask x < 2 ^ 32)"

text \<open>
  Python's \<^verbatim>\<open>==\<close> on the response attribute: a member of an \<^verbatim>\<open>IntEnum\<close> and a
  plain integer are equal when their integer values are.
\<close>

definition response_eq :: "response_field \<Rightarrow> response_field \<Rightarrow> bool" where
  "response_eq a b = (response_int a = response_int b)"

text \<open>
  A response attribute as \<^verbatim>\<open>unpack\<close> leaves it: a member, or a plain integer that
  is the value of no member.
\<close>

definition canonical_response :: "response_field \<Rightarrow> bool" where
  "canonical_response a =
     (case a of Member r \<Rightarrow> True | Plain n \<Rightarrow> Response_call n = Inl ValueError)"

section \<open>Properties of the field codec\<close>

lemma length_le_bytes [simp]: "length (le_bytes n v) = n"
  by (induction n arbitrary: v) auto

lemma le_int_le_bytes: "0 \<le> v \<Longrightarrow> v < 2 ^ (8 * n) \<Longrightarrow> le_int (le_bytes n v) = v"
proof (induction n arbitrary: v)
  case 0
  then show ?case by simp
next
  case (Suc n)
  have lo: "0 \<le> v div 256" using Suc.prems(1) by simp
  have "v < 256 * 2 ^ (8 * n)" using Suc.prems(2) by (simp add: power_add)
  moreover have "v = 256 * (v div 256) + v mod 256" by simp
  moreover have "0 \<le> v mod 256" by simp
  ultimately have hi: "v div 256 < 2 ^ (8 * n)" by linarith
  have "uint (word_of_int (v mod 256) :: byte) = v mod 256"
    by (simp add: uint_word_of_int)
  then show ?case using Suc.IH [OF lo hi] by simp
qed


lemma le_int_bounds: "0 \<le> le_int bs \<and> le_int bs < 2 ^ (8 * length bs)"
proof (induction bs)
  case Nil
  then show ?case by simp
next
  case (Cons b bs)
  have b: "0 \<le> uint b" "uint b < 256" using uint_lt2p [of b] by simp_all
  have "uint b + 256 * le_int bs < 256 * (1 + le_int bs)" using b by simp
  also have "\<dots> \<le> 256 * 2 ^ (8 * length bs)" using Cons.IH by simp
  finally show ?case using b Cons.IH by (simp add: power_add)
qed

lemma length_s_pack_internal: "length (fst (s_pack_internal fmt vs)) = calcsize fmt"
  by (induction fmt vs rule: s_pack_internal.induct) (auto split: prod.splits)

lemma window_start_error: "window_start sz len offset = Inl e \<Longrightarrow> e = StructError"
  by (auto simp: window_start_def Let_def split: if_splits)

lemma window_start_fits: "window_start sz len offset = Inr start \<Longrightarrow> start + sz \<le> len"
  by (auto simp: window_start_def Let_def split: if_splits)

lemma window_start_nonneg:
  "0 \<le> offset \<Longrightarrow> offset + int sz \<le> int len \<Longrightarrow> window_start sz len offset = Inr (nat offset)"
  by (auto simp: window_start_def Let_def)

lemma window_start_short: "len < sz \<Longrightarrow> window_start sz len offset = Inl StructError"
  by (auto simp: window_start_def Let_def)

lemma window_replace:
  "start + n \<le> length buffer \<Longrightarrow> length w = n \<Longrightarrow>
   take n (drop start (take start buffer @ w @ drop (start + n) buffer)) = w"
  by simp

lemma length_struct_pack_into:
  "length (fst (struct_pack_into fmt buffer offset vs)) = length buffer"
  using length_s_pack_internal [of fmt vs]
  by (auto simp: struct_pack_into_def split: sum.splits prod.splits dest: window_start_fits)

lemma struct_pack_into_frame:
  assumes "0 \<le> offset" "offset + int (calcsize fmt) \<le> int (length buffer)"
      and "i < nat offset \<or> nat offset + calcsize fmt \<le> i"
  shows "fst (struct_pack_into fmt buffer offset vs) ! i = buffer ! i"
proof (cases "length vs = num_args fmt")
  case False
  then show ?thesis by (simp add: struct_pack_into_def)
next
  case True
  obtain w e where w: "s_pack_internal fmt vs = (w, e)" by (cases "s_pack_internal fmt vs")
  have lw: "length w = calcsize fmt" using length_s_pack_internal [of fmt vs] w by simp
  have ws: "window_start (calcsize fmt) (length buffer) offset = Inr (nat offset)"
    using assms(1,2) by (rule window_start_nonneg)
  have r: "fst (struct_pack_into fmt buffer offset vs)
      = take (nat offset) buffer @ w @ drop (nat offset + calcsize fmt) buffer"
    using True w ws by (simp add: struct_pack_into_def)
  from assms(3) show ?thesis
  proof
    assume "i < nat offset"
    then show ?thesis using assms(1,2) by (simp add: r nth_append)
  next
    assume "nat offset + calcsize fmt \<le> i"
    then show ?thesis using assms(1,2) lw by (auto simp add: r nth_append)
  qed
qed

section \<open>Properties of the messages\<close>

lemma sizes [simp]:
  "CommandResponseMessage_SIZE = 8" "CommandResponseMessage_calcsize = 8"
  "MessageRequest_SIZE = 4" "MessageRequest_calcsize = 4"
  "ResetRequest_SIZE = 4" "ResetRequest_calcsize = 4"
  "calcsize CommandResponseMessage_FORMAT = 8" "calcsize MessageRequest_FORMAT = 4"
  "calcsize ResetRequest_FORMAT = 4"
  by (simp_all add: CommandResponseMessage_SIZE_def CommandResponseMessage_calcsize_def
      MessageRequest_SIZE_def MessageRequest_calcsize_def ResetRequest_SIZE_def
      ResetRequest_calcsize_def CommandResponseMessage_FORMAT_def MessageRequest_FORMAT_def
      ResetRequest_FORMAT_def)

lemma struct_unpack_from_short:
  "length buffer < calcsize fmt \<Longrightarrow> struct_unpack_from fmt buffer offset = Inl StructError"
  by (simp add: struct_unpack_from_def window_start_short)

lemma Response_call_error: "Response_call v = Inl e \<Longrightarrow> e = ValueError"
  by (auto simp: Response_call_def split: if_splits)

subsection \<open>Decoding a short buffer\<close>

text \<open>
  Claim C5. Decoding a buffer shorter than the fixed size of the variant raises
  \<^verbatim>\<open>struct.error\<close>, at every offset that is a \<^verbatim>\<open>Py_ssize_t\<close>, and leaves the
  instance as it was. In particular \<^verbatim>\<open>ResetRequest.unpack\<close> on a buffer of 3
  bytes raises.
\<close>

theorem short_buffer_rejected:
  assumes "ssize_t_range offset"
  shows "(length buffer < CommandResponseMessage_calcsize \<longrightarrow>
            CommandResponseMessage_unpack c buffer offset = (c, Inl StructError)) \<and>
         (length buffer < MessageRequest_calcsize \<longrightarrow>
            MessageRequest_unpack members m buffer offset = (m, Inl StructError)) \<and>
         (length buffer < ResetRequest_calcsize \<longrightarrow>
            ResetRequest_unpack r buffer offset = (r, Inl StructError))"
  by (simp add: CommandResponseMessage_unpack_def MessageRequest_unpack_def
      ResetRequest_unpack_def struct_unpack_from_short)

theorem short_buffer_rejected_witness:
  "ssize_t_range 0 \<and>
   length [1, 2, 3 :: byte] < ResetRequest_calcsize \<and>
   ResetRequest_unpack ResetRequest_init [1, 2, 3] 0 = (ResetRequest_init, Inl StructError) \<and>
   length [1, 2, 3 :: byte] < MessageRequest_calcsize \<and>
   MessageRequest_unpack [0] \<lparr>message_type = MessageType_member 0\<rparr> [1, 2, 3] 0
     = (\<lparr>message_type = MessageType_member 0\<rparr>, Inl StructError) \<and>
   length [1, 2, 3 :: byte] < CommandResponseMessage_calcsize \<and>
   CommandResponseMessage_unpack CommandResponseMessage_init [1, 2, 3] 0
     = (CommandResponseMessage_init, Inl StructError)"
proof -
  have h: "ssize_t_range 0" by (simp add: ssize_t_range_def)
  show ?thesis
    using h short_buffer_rejected [OF h, of "[1, 2, 3]" CommandResponseMessage_init "[0]"
        "\<lparr>message_type = MessageType_member 0\<rparr>" ResetRequest_init]
    by simp
qed

subsection \<open>A failed decode changes nothing\<close>

text \<open>
  Claim C9. For all three variants, when \<^verbatim>\<open>unpack\<close> raises, the instance after the
  call has exactly the field values it had before: no field is partially updated.
\<close>

theorem unpack_failure_atomic:
  "(isl (snd (CommandResponseMessage_unpack c buffer offset)) \<longrightarrow>
      fst (CommandResponseMessage_unpack c buffer offset) = c) \<and>
   (isl (snd (MessageRequest_unpack members m buffer offset)) \<longrightarrow>
      fst (MessageRequest_unpack members m buffer offset) = m) \<and>
   (isl (snd (ResetRequest_unpack r buffer offset)) \<longrightarrow>
      fst (ResetRequest_unpack r buffer offset) = r)"
proof (intro conjI impI)
  assume "isl (snd (CommandResponseMessage_unpack c buffer offset))"
  then show "fst (CommandResponseMessage_unpack c buffer offset) = c"
    by (auto simp: CommandResponseMessage_unpack_def Let_def
        split: sum.splits list.splits error.splits dest: Response_call_error)
next
  assume "isl (snd (MessageRequest_unpack members m buffer offset))"
  then show "fst (MessageRequest_unpack members m buffer offset) = m"
    by (auto simp: MessageRequest_unpack_def Let_def split: sum.splits list.splits)
next
  assume "isl (snd (ResetRequest_unpack r buffer offset))"
  then show "fst (ResetRequest_unpack r buffer offset) = r"
    by (auto simp: ResetRequest_unpack_def Let_def split: sum.splits list.splits)
qed

theorem unpack_failure_atomic_witness:
  "isl (snd (CommandResponseMessage_unpack
               \<lparr>source_sequence_num = 9, response = Plain 77\<rparr> [1, 2, 3, 4, 5, 6, 7] 0)) \<and>
   fst (CommandResponseMessage_unpack
               \<lparr>source_sequence_num = 9, response = Plain 77\<rparr> [1, 2, 3, 4, 5, 6, 7] 0)
     = \<lparr>source_sequence_num = 9, response = Plain 77\<rparr> \<and>
   isl (snd (MessageRequest_unpack [0, 5]
               \<lparr>message_type = MessageType_member 5\<rparr> [255, 255, 0, 0] 0)) \<and>
   fst (MessageRequest_unpack [0, 5]
               \<lparr>message_type = MessageType_member 5\<rparr> [255, 255, 0, 0] 0)
     = \<lparr>message_type = MessageType_member 5\<rparr> \<and>
   isl (snd (ResetRequest_unpack \<lparr>reset_mask = 511\<rparr> [1, 2, 3] 0)) \<and>
   fst (ResetRequest_unpack \<lparr>reset_mask = 511\<rparr> [1, 2, 3] 0) = \<lparr>reset_mask = 511\<rparr>"
  using unpack_failure_atomic [of "\<lparr>source_sequence_num = 9, response = Plain 77\<rparr>"
      "[1, 2, 3, 4, 5, 6, 7]" 0 "[0, 5]" "\<lparr>message_type = MessageType_member 5\<rparr>"
      "\<lparr>reset_mask = 511\<rparr>"]
    unpack_failure_atomic [of "\<lparr>source_sequence_num = 9, response = Plain 77\<rparr>"
      "[255, 255, 0, 0]" 0 "[0, 5]" "\<lparr>message_type = MessageType_member 5\<rparr>"
      "\<lparr>reset_mask = 511\<rparr>"]
    unpack_failure_atomic [of "\<lparr>source_sequence_num = 9, response = Plain 77\<rparr>"
      "[1, 2, 3]" 0 "[0, 5]" "\<lparr>message_type = MessageType_member 5\<rparr>"
      "\<lparr>reset_mask = 511\<rparr>"]
  by (simp add: CommandResponseMessage_unpack_def MessageRequest_unpack_def
      ResetRequest_unpack_def struct_unpack_from_def window_start_def
      MessageRequest_FORMAT_def MessageType_call_def)

subsection \<open>The documented scenario\<close>

text \<open>
  Claim C6. Encoding a command response with sequence number 42 and response
  \<^verbatim>\<open>VALUE_ERROR\<close> gives the bytes 2A 00 00 00 03 00 00 00, and decoding these bytes
  gives sequence number 42 and response \<^verbatim>\<open>VALUE_ERROR\<close>.
\<close>

theorem command_response_scenario:
  "CommandResponseMessage_pack
     \<lparr>source_sequence_num = 42, response = Member VALUE_ERROR\<rparr> None 0 True
     = ([0x2A, 0, 0, 0, 3, 0, 0, 0], Inr (RetBuffer [0x2A, 0, 0, 0, 3, 0, 0, 0])) \<and>
   CommandResponseMessage_unpack CommandResponseMessage_init [0x2A, 0, 0, 0, 3, 0, 0, 0] 0
     = (\<lparr>source_sequence_num = 42, response = Member VALUE_ERROR\<rparr>, Inr 8)"
  by code_simp

subsection \<open>The returned byte count\<close>

text \<open>
  Claim C2, at a nonzero offset. \<^verbatim>\<open>CommandResponseMessage.pack\<close> and
  \<^verbatim>\<open>CommandResponseMessage.unpack\<close> assign \<^verbatim>\<open>offset = _SIZE\<close> where the two other
  classes add the size to the offset, so at offset 4 in a buffer of 12 bytes they
  return 4 and not the fixed size 8, although 8 bytes are written and read.
  \<^verbatim>\<open>MessageRequest\<close> and \<^verbatim>\<open>ResetRequest\<close> return their fixed size 4 there.
\<close>

theorem command_response_count_at_offset:
  "CommandResponseMessage_pack CommandResponseMessage_init (Some (replicate 12 255)) 4 False
     = ([255, 255, 255, 255, 0, 0, 0, 0, 0, 0, 0, 0], Inr (RetCount 4)) \<and>
   CommandResponseMessage_unpack CommandResponseMessage_init
       [255, 255, 255, 255, 0, 0, 0, 0, 0, 0, 0, 0] 4
     = (CommandResponseMessage_init, Inr 4) \<and>
   CommandResponseMessage_calcsize = 8 \<and>
   MessageRequest_pack \<lparr>message_type = MessageType_member 0\<rparr> (Some (replicate 12 255)) 4 False
     = ([255, 255, 255, 255, 0, 0, 0, 0, 255, 255, 255, 255], Inr (RetCount 4)) \<and>
   ResetRequest_pack ResetRequest_init (Some (replicate 12 255)) 4 False
     = ([255, 255, 255, 255, 0, 0, 0, 0, 255, 255, 255, 255], Inr (RetCount 4))"
  by code_simp

subsection \<open>Decoding and encoding, field by field\<close>

lemma le_int_single [simp]: "le_int [b] = uint b"
  by simp

lemma take1_drop: "n < length xs \<Longrightarrow> take 1 (drop n xs) = [xs ! n]"
  by (simp add: take_Suc_conv_app_nth)

lemma CommandResponseMessage_unpack_from:
  assumes "0 \<le> offset" "offset + 8 \<le> int (length buffer)"
  shows "struct_unpack_from CommandResponseMessage_FORMAT buffer offset =
     Inr [le_int (take 4 (drop (nat offset) buffer)), uint (buffer ! (nat offset + 4))]"
proof -
  have ws: "window_start 8 (length buffer) offset = Inr (nat offset)"
    using assms by (simp add: window_start_nonneg)
  have "drop 4 (take 8 (drop (nat offset) buffer)) = take 4 (drop (nat offset + 4) buffer)"
    by (simp add: drop_take add.commute)
  moreover have "take 1 (drop (nat offset + 4) buffer) = [buffer ! (nat offset + 4)]"
    using assms by (intro take1_drop) linarith
  ultimately show ?thesis
    using ws by (simp add: struct_unpack_from_def CommandResponseMessage_FORMAT_def)
qed

lemma Response_value_call: "Response_call v = Inr r \<Longrightarrow> Response_value r = v"
  by (auto simp: Response_call_def split: if_splits)

lemma Response_call_value [simp]: "Response_call (Response_value r) = Inr r"
  by (cases r) (simp_all add: Response_call_def)

lemma Response_call_range: "(\<exists>r. Response_call v = Inr r) \<longleftrightarrow> 0 \<le> v \<and> v \<le> 5"
  by (auto simp: Response_call_def)

lemma struct_pack_into_fits:
  assumes "0 \<le> offset" "offset + int (calcsize fmt) \<le> int (length buffer)"
      and "length vs = num_args fmt"
  shows "struct_pack_into fmt buffer offset vs =
     (take (nat offset) buffer @ fst (s_pack_internal fmt vs)
        @ drop (nat offset + calcsize fmt) buffer, snd (s_pack_internal fmt vs))"
  using assms by (simp add: struct_pack_into_def window_start_nonneg split: prod.splits)

lemma num_args_formats [simp]:
  "num_args CommandResponseMessage_FORMAT = 2" "num_args MessageRequest_FORMAT = 1"
  "num_args ResetRequest_FORMAT = 1"
  by (simp_all add: CommandResponseMessage_FORMAT_def MessageRequest_FORMAT_def
      ResetRequest_FORMAT_def)

lemma s_pack_CommandResponseMessage:
  "0 \<le> s \<Longrightarrow> s < 2 ^ 32 \<Longrightarrow> 0 \<le> r \<Longrightarrow> r < 2 ^ 8 \<Longrightarrow>
   s_pack_internal CommandResponseMessage_FORMAT [s, r]
     = (le_bytes 4 s @ [word_of_int r, 0, 0, 0], None)"
  by (simp add: CommandResponseMessage_FORMAT_def in_range_def)

lemma CommandResponseMessage_pack_default:
  assumes "valid_CommandResponseMessage x"
  shows "CommandResponseMessage_pack x None 0 True =
     (le_bytes 4 (source_sequence_num x) @ [word_of_int (response_int (response x)), 0, 0, 0],
      Inr (RetBuffer (le_bytes 4 (source_sequence_num x)
             @ [word_of_int (response_int (response x)), 0, 0, 0])))"
  using assms
  by (simp add: CommandResponseMessage_pack_def valid_CommandResponseMessage_def
      struct_pack_into_fits s_pack_CommandResponseMessage)

lemma CommandResponseMessage_unpack_packed:
  assumes "0 \<le> s" "s < 2 ^ 32" "0 \<le> r" "r < 2 ^ 8"
  shows "struct_unpack_from CommandResponseMessage_FORMAT
           (le_bytes 4 s @ [word_of_int r, 0, 0, 0]) 0 = Inr [s, r]"
proof -
  have u: "uint (word_of_int r :: byte) = r"
    using assms(3,4) by (simp add: uint_word_of_int)
  have "le_int (le_bytes 4 s) = s" using assms(1,2) by (intro le_int_le_bytes) simp_all
  then show ?thesis
    using u by (simp add: CommandResponseMessage_unpack_from nth_append)
qed

lemma MessageRequest_unpack_from:
  assumes "0 \<le> offset" "offset + 4 \<le> int (length buffer)"
  shows "struct_unpack_from MessageRequest_FORMAT buffer offset =
     Inr [le_int (take 2 (drop (nat offset) buffer))]"
  using assms
  by (simp add: struct_unpack_from_def MessageRequest_FORMAT_def window_start_nonneg)

lemma ResetRequest_unpack_from:
  assumes "0 \<le> offset" "offset + 4 \<le> int (length buffer)"
  shows "struct_unpack_from ResetRequest_FORMAT buffer offset =
     Inr [le_int (take 4 (drop (nat offset) buffer))]"
  using assms
  by (simp add: struct_unpack_from_def ResetRequest_FORMAT_def window_start_nonneg)

lemma s_pack_MessageRequest:
  "0 \<le> v \<Longrightarrow> v < 2 ^ 16 \<Longrightarrow>
   s_pack_internal MessageRequest_FORMAT [v] = (le_bytes 2 v @ [0, 0], None)"
  by (simp add: MessageRequest_FORMAT_def in_range_def)

lemma s_pack_ResetRequest:
  "0 \<le> v \<Longrightarrow> v < 2 ^ 32 \<Longrightarrow>
   s_pack_internal ResetRequest_FORMAT [v] = (le_bytes 4 v, None)"
  by (simp add: ResetRequest_FORMAT_def in_range_def)

lemma MessageRequest_pack_default:
  assumes "0 \<le> MessageType_value (message_type x)" "MessageType_value (message_type x) < 2 ^ 16"
  shows "MessageRequest_pack x None 0 True =
     (le_bytes 2 (MessageType_value (message_type x)) @ [0, 0],
      Inr (RetBuffer (le_bytes 2 (MessageType_value (message_type x)) @ [0, 0])))"
  using assms
  by (simp add: MessageRequest_pack_def struct_pack_into_fits s_pack_MessageRequest)

lemma ResetRequest_pack_default:
  assumes "valid_ResetRequest x"
  shows "ResetRequest_pack x None 0 True =
     (le_bytes 4 (reset_mask x), Inr (RetBuffer (le_bytes 4 (reset_mask x))))"
  using assms
  by (simp add: ResetRequest_pack_def valid_ResetRequest_def struct_pack_into_fits
      s_pack_ResetRequest)

lemma MessageType_member_value [simp]: "MessageType_member (MessageType_value t) = t"
  by (cases t) simp

subsection \<open>Round trip\<close>

text \<open>
  Claim C1. For each of the three variants and every valid assignment of its fields,
  \<^verbatim>\<open>pack\<close> followed by \<^verbatim>\<open>unpack\<close> of the produced bytes into another instance
  gives an instance whose fields equal the original's. For the response attribute
  equality is Python's \<^verbatim>\<open>==\<close>; the two attributes are moreover identical unless the
  original held a plain integer that is the value of a member.
\<close>

theorem pack_unpack_roundtrip:
  "(valid_CommandResponseMessage x \<longrightarrow>
      (\<exists>buf y. CommandResponseMessage_pack x None 0 True = (buf, Inr (RetBuffer buf)) \<and>
         CommandResponseMessage_unpack CommandResponseMessage_init buf 0 = (y, Inr 8) \<and>
         source_sequence_num y = source_sequence_num x \<and>
         response_eq (response y) (response x) \<and>
         (canonical_response (response x) \<longrightarrow> y = x))) \<and>
   (valid_MessageRequest members m \<longrightarrow>
      (\<exists>buf. MessageRequest_pack m None 0 True = (buf, Inr (RetBuffer buf)) \<and>
         MessageRequest_unpack members m0 buf 0 = (m, Inr 4))) \<and>
   (valid_ResetRequest r \<longrightarrow>
      (\<exists>buf. ResetRequest_pack r None 0 True = (buf, Inr (RetBuffer buf)) \<and>
         ResetRequest_unpack ResetRequest_init buf 0 = (r, Inr 4)))"
proof (intro conjI impI)
  assume v: "valid_CommandResponseMessage x"
  let ?s = "source_sequence_num x" and ?r = "response_int (response x)"
  let ?buf = "le_bytes 4 ?s @ [word_of_int ?r, 0, 0, 0]"
  have rng: "0 \<le> ?s" "?s < 2 ^ 32" "0 \<le> ?r" "?r < 2 ^ 8"
    using v by (simp_all add: valid_CommandResponseMessage_def)
  have p: "CommandResponseMessage_pack x None 0 True = (?buf, Inr (RetBuffer ?buf))"
    using v by (rule CommandResponseMessage_pack_default)
  have u: "struct_unpack_from CommandResponseMessage_FORMAT ?buf 0 = Inr [?s, ?r]"
    using rng by (rule CommandResponseMessage_unpack_packed)
  show "\<exists>buf y. CommandResponseMessage_pack x None 0 True = (buf, Inr (RetBuffer buf)) \<and>
         CommandResponseMessage_unpack CommandResponseMessage_init buf 0 = (y, Inr 8) \<and>
         source_sequence_num y = source_sequence_num x \<and>
         response_eq (response y) (response x) \<and>
         (canonical_response (response x) \<longrightarrow> y = x)"
  proof (cases "Response_call ?r")
    case (Inl e)
    then have e: "e = ValueError" by (rule Response_call_error)
    have c: "canonical_response (response x) \<Longrightarrow> response x = Plain ?r"
      using Inl by (cases "response x") (simp_all add: canonical_response_def)
    show ?thesis
      using p u Inl e c
      by (auto simp: CommandResponseMessage_unpack_def CommandResponseMessage_init_def
          response_eq_def)
  next
    case (Inr k)
    have k: "Response_value k = ?r" using Inr by (rule Response_value_call)
    have c: "canonical_response (response x) \<Longrightarrow> response x = Member k"
      using Inr by (cases "response x") (auto simp: canonical_response_def)
    show ?thesis
      using p u Inr k c
      by (auto simp: CommandResponseMessage_unpack_def CommandResponseMessage_init_def
          response_eq_def)
  qed
next
  assume v: "valid_MessageRequest members m"
  let ?v = "MessageType_value (message_type m)"
  let ?buf = "le_bytes 2 ?v @ [0, 0]"
  have rng: "?v \<in> set members" "0 \<le> ?v" "?v < 2 ^ 16"
    using v by (simp_all add: valid_MessageRequest_def)
  have p: "MessageRequest_pack m None 0 True = (?buf, Inr (RetBuffer ?buf))"
    using rng(2,3) by (rule MessageRequest_pack_default)
  have "le_int (le_bytes 2 ?v) = ?v" using rng(2,3) by (intro le_int_le_bytes) simp_all
  then have u: "struct_unpack_from MessageRequest_FORMAT ?buf 0 = Inr [?v]"
    by (simp add: MessageRequest_unpack_from)
  have "MessageRequest_unpack members m0 ?buf 0 = (m, Inr 4)"
    using u rng(1) by (simp add: MessageRequest_unpack_def MessageType_call_def)
  then show "\<exists>buf. MessageRequest_pack m None 0 True = (buf, Inr (RetBuffer buf)) \<and>
         MessageRequest_unpack members m0 buf 0 = (m, Inr 4)"
    using p by simp
next
  assume v: "valid_ResetRequest r"
  let ?v = "reset_mask r"
  have rng: "0 \<le> ?v" "?v < 2 ^ 32" using v by (simp_all add: valid_ResetRequest_def)
  have p: "ResetRequest_pack r None 0 True = (le_bytes 4 ?v, Inr (RetBuffer (le_bytes 4 ?v)))"
    using v by (rule ResetRequest_pack_default)
  have "le_int (le_bytes 4 ?v) = ?v" using rng by (intro le_int_le_bytes) simp_all
  then have u: "struct_unpack_from ResetRequest_FORMAT (le_bytes 4 ?v) 0 = Inr [?v]"
    by (simp add: ResetRequest_unpack_from)
  have "ResetRequest_unpack ResetRequest_init (le_bytes 4 ?v) 0 = (r, Inr 4)"
    using u by (simp add: ResetRequest_unpack_def ResetRequest_init_def)
  then show "\<exists>buf. ResetRequest_pack r None 0 True = (buf, Inr (RetBuffer buf)) \<and>
         ResetRequest_unpack ResetRequest_init buf 0 = (r, Inr 4)"
    using p by simp
qed

theorem pack_unpack_roundtrip_witness:
  "valid_CommandResponseMessage \<lparr>source_sequence_num = 42, response = Member VALUE_ERROR\<rparr> \<and>
   canonical_response (Member VALUE_ERROR) \<and>
   valid_MessageRequest [0, 13000] \<lparr>message_type = MessageType_member 13000\<rparr> \<and>
   valid_ResetRequest \<lparr>reset_mask = 0x1FF\<rparr> \<and>
   CommandResponseMessage_unpack CommandResponseMessage_init
     (fst (CommandResponseMessage_pack
             \<lparr>source_sequence_num = 42, response = Member VALUE_ERROR\<rparr> None 0 True)) 0
     = (\<lparr>source_sequence_num = 42, response = Member VALUE_ERROR\<rparr>, Inr 8) \<and>
   MessageRequest_unpack [0, 13000] \<lparr>message_type = MessageType_member 0\<rparr>
     (fst (MessageRequest_pack \<lparr>message_type = MessageType_member 13000\<rparr> None 0 True)) 0
     = (\<lparr>message_type = MessageType_member 13000\<rparr>, Inr 4) \<and>
   ResetRequest_unpack ResetRequest_init
     (fst (ResetRequest_pack \<lparr>reset_mask = 0x1FF\<rparr> None 0 True)) 0
     = (\<lparr>reset_mask = 0x1FF\<rparr>, Inr 4)"
proof -
  have v: "valid_CommandResponseMessage \<lparr>source_sequence_num = 42, response = Member VALUE_ERROR\<rparr>"
    "canonical_response (Member VALUE_ERROR)"
    "valid_MessageRequest [0, 13000] \<lparr>message_type = MessageType_member 13000\<rparr>"
    "valid_ResetRequest \<lparr>reset_mask = 0x1FF\<rparr>"
    by (simp_all add: valid_CommandResponseMessage_def canonical_response_def
        valid_MessageRequest_def valid_ResetRequest_def)
  show ?thesis
    using v pack_unpack_roundtrip [of
        "\<lparr>source_sequence_num = 42, response = Member VALUE_ERROR\<rparr>" "[0, 13000]"
        "\<lparr>message_type = MessageType_member 13000\<rparr>"
        "\<lparr>message_type = MessageType_member 0\<rparr>" "\<lparr>reset_mask = 0x1FF\<rparr>"]
    by auto
qed

subsection \<open>An unknown response code\<close>

text \<open>
  Claim C4. \<^verbatim>\<open>CommandResponseMessage.unpack\<close> on a buffer whose response byte is 200
  succeeds, leaves \<^verbatim>\<open>int(self.response) == 200\<close> on a plain integer, and packing
  the instance again gives the byte 200 at offset 4.
\<close>

theorem unknown_response_tolerated:
  assumes "8 \<le> length buffer" "buffer ! 4 = 200"
  shows "\<exists>y buf. CommandResponseMessage_unpack self buffer 0 = (y, Inr 8) \<and>
           response y = Plain 200 \<and> response_int (response y) = 200 \<and>
           CommandResponseMessage_pack y None 0 True = (buf, Inr (RetBuffer buf)) \<and>
           buf ! 4 = 200"
proof -
  let ?s = "le_int (take 4 buffer)"
  let ?y = "self\<lparr>source_sequence_num := ?s, response := Plain 200\<rparr>"
  let ?buf = "le_bytes 4 ?s @ [200, 0, 0, 0]"
  have u: "struct_unpack_from CommandResponseMessage_FORMAT buffer 0 = Inr [?s, 200]"
    using assms CommandResponseMessage_unpack_from [of 0 buffer] by simp
  have r: "Response_call 200 = Inl ValueError" by (simp add: Response_call_def)
  have 1: "CommandResponseMessage_unpack self buffer 0 = (?y, Inr 8)"
    using u r by (simp add: CommandResponseMessage_unpack_def)
  have s: "0 \<le> ?s" "?s < 2 ^ 32"
    using le_int_bounds [of "take 4 buffer"] assms(1) by simp_all
  have "s_pack_internal CommandResponseMessage_FORMAT [?s, 200] = (?buf, None)"
    using s s_pack_CommandResponseMessage [of ?s 200] by simp
  then have 2: "CommandResponseMessage_pack ?y None 0 True = (?buf, Inr (RetBuffer ?buf))"
    by (simp add: CommandResponseMessage_pack_def struct_pack_into_fits)
  have 3: "?buf ! 4 = 200" by (simp add: nth_append)
  show ?thesis using 1 2 3 by simp
qed

theorem unknown_response_tolerated_witness:
  "8 \<le> length [42, 0, 0, 0, 200, 7, 7, 7 :: byte] \<and>
   [42, 0, 0, 0, 200, 7, 7, 7 :: byte] ! 4 = 200 \<and>
   (\<exists>y buf. CommandResponseMessage_unpack CommandResponseMessage_init
                [42, 0, 0, 0, 200, 7, 7, 7] 0 = (y, Inr 8) \<and>
           response y = Plain 200 \<and> response_int (response y) = 200 \<and>
           CommandResponseMessage_pack y None 0 True = (buf, Inr (RetBuffer buf)) \<and>
           buf ! 4 = 200)"
  using unknown_response_tolerated [of "[42, 0, 0, 0, 200, 7, 7, 7]" CommandResponseMessage_init]
  by simp

subsection \<open>Every response byte decodes\<close>

text \<open>
  Claim C10. \<^verbatim>\<open>CommandResponseMessage.unpack\<close> succeeds for every value of the
  response byte (the byte 4 of the payload) when the buffer is long enough. Afterwards
  \<^verbatim>\<open>self.response\<close> is a member of \<^verbatim>\<open>Response\<close> exactly when the byte is one of
  0..5 and a plain integer otherwise, and in both cases its integer value is the byte.
\<close>

theorem response_byte_total:
  assumes "0 \<le> offset" "offset + 8 \<le> int (length buffer)"
  shows "\<exists>y n. CommandResponseMessage_unpack self buffer offset = (y, Inr n) \<and>
           response_int (response y) = uint (buffer ! (nat offset + 4)) \<and>
           (is_Member (response y) \<longleftrightarrow> uint (buffer ! (nat offset + 4)) \<le> 5)"
proof -
  let ?b = "uint (buffer ! (nat offset + 4))"
  have b0: "0 \<le> ?b" by simp
  show ?thesis
  proof (cases "Response_call ?b")
    case (Inl e)
    then have e: "e = ValueError" by (rule Response_call_error)
    have "\<not> ?b \<le> 5" using Inl Response_call_range [of ?b] b0 by auto
    then show ?thesis
      using Inl e by (simp add: CommandResponseMessage_unpack_def
          CommandResponseMessage_unpack_from [OF assms])
  next
    case (Inr r)
    have "?b \<le> 5" using Inr Response_call_range [of ?b] by auto
    then show ?thesis
      using Inr Response_value_call [OF Inr] by (simp add: CommandResponseMessage_unpack_def
          CommandResponseMessage_unpack_from [OF assms])
  qed
qed

theorem response_byte_total_witness:
  "(0::int) \<le> 0 \<and> 0 + 8 \<le> int (length [1, 0, 0, 0, 200, 9, 9, 9 :: byte]) \<and>
   (\<exists>y n. CommandResponseMessage_unpack CommandResponseMessage_init
              [1, 0, 0, 0, 200, 9, 9, 9] 0 = (y, Inr n) \<and>
           response_int (response y) = 200 \<and> \<not> is_Member (response y)) \<and>
   (\<exists>y n. CommandResponseMessage_unpack CommandResponseMessage_init
              [1, 0, 0, 0, 5, 9, 9, 9] 0 = (y, Inr n) \<and>
           response_int (response y) = 5 \<and> is_Member (response y))"
  using response_byte_total [of 0 "[1, 0, 0, 0, 200, 9, 9, 9]" CommandResponseMessage_init]
    response_byte_total [of 0 "[1, 0, 0, 0, 5, 9, 9, 9]" CommandResponseMessage_init]
  by simp

subsection \<open>An unknown message type\<close>




subsection \<open>The buffer after packing\<close>

lemma fst_CommandResponseMessage_pack:
  "fst (CommandResponseMessage_pack c (Some buffer) offset rb)
     = fst (struct_pack_into CommandResponseMessage_FORMAT buffer offset
              [source_sequence_num c, response_int (response c)])"
  by (simp add: CommandResponseMessage_pack_def split: prod.splits option.splits)

lemma fst_MessageRequest_pack:
  "fst (MessageRequest_pack m (Some buffer) offset rb)
     = fst (struct_pack_into MessageRequest_FORMAT buffer offset
              [MessageType_value (message_type m)])"
  by (simp add: MessageRequest_pack_def split: prod.splits option.splits)

lemma fst_ResetRequest_pack:
  "fst (ResetRequest_pack r (Some buffer) offset rb)
     = fst (struct_pack_into ResetRequest_FORMAT buffer offset [reset_mask r])"
  by (simp add: ResetRequest_pack_def split: prod.splits option.splits)

lemma take_drop_cong:
  assumes "length b1 = length b2"
    and "\<And>i. s \<le> i \<Longrightarrow> i < s + n \<Longrightarrow> i < length b1 \<Longrightarrow> b1 ! i = b2 ! i"
  shows "take n (drop s b1) = take n (drop s b2)"
proof (rule nth_equalityI)
  show "length (take n (drop s b1)) = length (take n (drop s b2))"
    using assms(1) by simp
next
  fix i
  assume "i < length (take n (drop s b1))"
  then have i: "i < n" "s + i < length b1" by auto
  then have "b1 ! (s + i) = b2 ! (s + i)" by (intro assms(2)) simp_all
  then show "take n (drop s b1) ! i = take n (drop s b2) ! i"
    using i assms(1) by simp
qed

lemma s_pack_MessageRequest_padding:
  "fst (s_pack_internal MessageRequest_FORMAT [v]) ! 2 = 0 \<and>
   fst (s_pack_internal MessageRequest_FORMAT [v]) ! 3 = 0"
  by (simp add: MessageRequest_FORMAT_def nth_append eval_nat_numeral)

lemma window_nth:
  "start + n \<le> length buffer \<Longrightarrow> length w = n \<Longrightarrow> k < n \<Longrightarrow>
   (take start buffer @ w @ drop (start + n) buffer) ! (start + k) = w ! k"
  by (simp add: nth_append)


subsection \<open>Bytes outside the window\<close>

text \<open>
  Claim C8. When \<^verbatim>\<open>pack\<close> is called with a caller-supplied buffer and an offset at
  which the fixed size fits, the buffer keeps its length and every byte outside
  \<open>[offset, offset + fixed_size)\<close> is unchanged after the call, whether the call
  returns or raises, for all three variants.
\<close>

theorem pack_frame:
  assumes "0 \<le> offset"
  shows "(offset + int CommandResponseMessage_calcsize \<le> int (length buffer) \<longrightarrow>
            length (fst (CommandResponseMessage_pack c (Some buffer) offset rb)) = length buffer \<and>
            (\<forall>i < length buffer. i < nat offset \<or> nat offset + CommandResponseMessage_calcsize \<le> i \<longrightarrow>
               fst (CommandResponseMessage_pack c (Some buffer) offset rb) ! i = buffer ! i)) \<and>
         (offset + int MessageRequest_calcsize \<le> int (length buffer) \<longrightarrow>
            length (fst (MessageRequest_pack m (Some buffer) offset rb)) = length buffer \<and>
            (\<forall>i < length buffer. i < nat offset \<or> nat offset + MessageRequest_calcsize \<le> i \<longrightarrow>
               fst (MessageRequest_pack m (Some buffer) offset rb) ! i = buffer ! i)) \<and>
         (offset + int ResetRequest_calcsize \<le> int (length buffer) \<longrightarrow>
            length (fst (ResetRequest_pack r (Some buffer) offset rb)) = length buffer \<and>
            (\<forall>i < length buffer. i < nat offset \<or> nat offset + ResetRequest_calcsize \<le> i \<longrightarrow>
               fst (ResetRequest_pack r (Some buffer) offset rb) ! i = buffer ! i))"
proof (intro conjI impI allI)
  fix i
  assume "offset + int CommandResponseMessage_calcsize \<le> int (length buffer)"
    and "i < nat offset \<or> nat offset + CommandResponseMessage_calcsize \<le> i"
  then show "fst (CommandResponseMessage_pack c (Some buffer) offset rb) ! i = buffer ! i"
    using assms by (simp add: fst_CommandResponseMessage_pack struct_pack_into_frame)
next
  fix i
  assume "offset + int MessageRequest_calcsize \<le> int (length buffer)"
    and "i < nat offset \<or> nat offset + MessageRequest_calcsize \<le> i"
  then show "fst (MessageRequest_pack m (Some buffer) offset rb) ! i = buffer ! i"
    using assms by (simp add: fst_MessageRequest_pack struct_pack_into_frame)
next
  fix i
  assume "offset + int ResetRequest_calcsize \<le> int (length buffer)"
    and "i < nat offset \<or> nat offset + ResetRequest_calcsize \<le> i"
  then show "fst (ResetRequest_pack r (Some buffer) offset rb) ! i = buffer ! i"
    using assms by (simp add: fst_ResetRequest_pack struct_pack_into_frame)
qed (simp_all add: fst_CommandResponseMessage_pack fst_MessageRequest_pack
    fst_ResetRequest_pack length_struct_pack_into)

theorem pack_frame_witness:
  "(0::int) \<le> 2 \<and>
   2 + int CommandResponseMessage_calcsize \<le> int (length (replicate 12 (255::byte))) \<and>
   2 + int MessageRequest_calcsize \<le> int (length (replicate 12 (255::byte))) \<and>
   2 + int ResetRequest_calcsize \<le> int (length (replicate 12 (255::byte))) \<and>
   (1::nat) < length (replicate 12 (255::byte)) \<and> (1::nat) < nat 2 \<and>
   (10::nat) < length (replicate 12 (255::byte)) \<and> nat 2 + CommandResponseMessage_calcsize \<le> 10 \<and>
   fst (CommandResponseMessage_pack \<lparr>source_sequence_num = 42, response = Member VALUE_ERROR\<rparr>
          (Some (replicate 12 255)) 2 False) ! 1 = 255 \<and>
   fst (CommandResponseMessage_pack \<lparr>source_sequence_num = 42, response = Member VALUE_ERROR\<rparr>
          (Some (replicate 12 255)) 2 False) ! 10 = 255 \<and>
   fst (MessageRequest_pack \<lparr>message_type = MessageType_member 13000\<rparr>
          (Some (replicate 12 255)) 2 False) ! 1 = 255 \<and>
   fst (MessageRequest_pack \<lparr>message_type = MessageType_member 13000\<rparr>
          (Some (replicate 12 255)) 2 False) ! 10 = 255 \<and>
   fst (ResetRequest_pack \<lparr>reset_mask = 0x1FF\<rparr> (Some (replicate 12 255)) 2 False) ! 1 = 255 \<and>
   fst (ResetRequest_pack \<lparr>reset_mask = 0x1FF\<rparr> (Some (replicate 12 255)) 2 False) ! 10 = 255"
  using pack_frame [of 2 "replicate 12 255"
      "\<lparr>source_sequence_num = 42, response = Member VALUE_ERROR\<rparr>" False
      "\<lparr>message_type = MessageType_member 13000\<rparr>" "\<lparr>reset_mask = 0x1FF\<rparr>"]
  by simp

subsection \<open>Padding bytes\<close>

text \<open>
  Claim C7. Padding bytes are written as zero and ignored on read: for every
  \<^verbatim>\<open>MessageRequest\<close> and every prior content of the buffer, \<^verbatim>\<open>pack\<close> sets the
  bytes 2 and 3 of the payload to zero; and for every variant, decoding two buffers
  of the same length that differ at most in the padding bytes of the payload gives
  the same instance and the same result (\<^verbatim>\<open>ResetRequest\<close> has no padding bytes).
\<close>

theorem padding_zeroed_and_ignored:
  assumes "0 \<le> offset"
  shows "(offset + int MessageRequest_calcsize \<le> int (length buffer) \<longrightarrow>
            fst (MessageRequest_pack m (Some buffer) offset rb) ! (nat offset + 2) = 0 \<and>
            fst (MessageRequest_pack m (Some buffer) offset rb) ! (nat offset + 3) = 0) \<and>
         (length b1 = length b2 \<and>
            (\<forall>i < length b1. i \<notin> {nat offset + 5, nat offset + 6, nat offset + 7} \<longrightarrow> b1 ! i = b2 ! i) \<longrightarrow>
            CommandResponseMessage_unpack c b1 offset = CommandResponseMessage_unpack c b2 offset) \<and>
         (length b1 = length b2 \<and>
            (\<forall>i < length b1. i \<notin> {nat offset + 2, nat offset + 3} \<longrightarrow> b1 ! i = b2 ! i) \<longrightarrow>
            MessageRequest_unpack members m b1 offset = MessageRequest_unpack members m b2 offset) \<and>
         (length b1 = length b2 \<and> (\<forall>i < length b1. b1 ! i = b2 ! i) \<longrightarrow>
            ResetRequest_unpack r b1 offset = ResetRequest_unpack r b2 offset)"
proof (intro conjI impI)
  assume fit: "offset + int MessageRequest_calcsize \<le> int (length buffer)"
  let ?w = "fst (s_pack_internal MessageRequest_FORMAT [MessageType_value (message_type m)])"
  have lw: "length ?w = 4" using length_s_pack_internal [of MessageRequest_FORMAT] by simp
  have f: "nat offset + 4 \<le> length buffer" using assms fit by simp
  have b: "fst (MessageRequest_pack m (Some buffer) offset rb)
      = take (nat offset) buffer @ ?w @ drop (nat offset + 4) buffer"
    using assms fit by (simp add: fst_MessageRequest_pack struct_pack_into_fits)
  show "fst (MessageRequest_pack m (Some buffer) offset rb) ! (nat offset + 2) = 0"
    using window_nth [OF f lw, of 2] s_pack_MessageRequest_padding by (simp add: b)
  show "fst (MessageRequest_pack m (Some buffer) offset rb) ! (nat offset + 3) = 0"
    using window_nth [OF f lw, of 3] s_pack_MessageRequest_padding by (simp add: b)
next
  assume a: "length b1 = length b2 \<and>
    (\<forall>i < length b1. i \<notin> {nat offset + 5, nat offset + 6, nat offset + 7} \<longrightarrow> b1 ! i = b2 ! i)"
  have "struct_unpack_from CommandResponseMessage_FORMAT b1 offset
      = struct_unpack_from CommandResponseMessage_FORMAT b2 offset"
  proof (cases "offset + 8 \<le> int (length b1)")
    case True
    have "take 4 (drop (nat offset) b1) = take 4 (drop (nat offset) b2)"
      using a by (intro take_drop_cong) auto
    moreover have "b1 ! (nat offset + 4) = b2 ! (nat offset + 4)"
      using a True assms by auto
    ultimately show ?thesis
      using True a assms by (simp add: CommandResponseMessage_unpack_from)
  next
    case False
    then show ?thesis
      using a assms by (simp add: struct_unpack_from_def window_start_def)
  qed
  then show "CommandResponseMessage_unpack c b1 offset = CommandResponseMessage_unpack c b2 offset"
    by (simp add: CommandResponseMessage_unpack_def)
next
  assume a: "length b1 = length b2 \<and>
    (\<forall>i < length b1. i \<notin> {nat offset + 2, nat offset + 3} \<longrightarrow> b1 ! i = b2 ! i)"
  have "struct_unpack_from MessageRequest_FORMAT b1 offset
      = struct_unpack_from MessageRequest_FORMAT b2 offset"
  proof (cases "offset + 4 \<le> int (length b1)")
    case True
    have "take 2 (drop (nat offset) b1) = take 2 (drop (nat offset) b2)"
      using a by (intro take_drop_cong) auto
    then show ?thesis
      using True a assms by (simp add: MessageRequest_unpack_from)
  next
    case False
    then show ?thesis
      using a assms by (simp add: struct_unpack_from_def window_start_def)
  qed
  then show "MessageRequest_unpack members m b1 offset = MessageRequest_unpack members m b2 offset"
    by (simp add: MessageRequest_unpack_def)
next
  assume a: "length b1 = length b2 \<and> (\<forall>i < length b1. b1 ! i = b2 ! i)"
  then have "b1 = b2" by (intro nth_equalityI) simp_all
  then show "ResetRequest_unpack r b1 offset = ResetRequest_unpack r b2 offset" by simp
qed

theorem padding_zeroed_and_ignored_witness:
  "(0::int) \<le> 1 \<and>
   1 + int MessageRequest_calcsize \<le> int (length (replicate 6 (255::byte))) \<and>
   fst (MessageRequest_pack \<lparr>message_type = MessageType_member 13000\<rparr>
          (Some (replicate 6 255)) 1 False) ! (nat 1 + 2) = 0 \<and>
   fst (MessageRequest_pack \<lparr>message_type = MessageType_member 13000\<rparr>
          (Some (replicate 6 255)) 1 False) ! (nat 1 + 3) = 0 \<and>
   length [9, 42, 0, 0, 0, 3, 0, 0, 0 :: byte] = length [9, 42, 0, 0, 0, 3, 0xAA, 0xBB, 0xCC :: byte] \<and>
   CommandResponseMessage_unpack CommandResponseMessage_init [9, 42, 0, 0, 0, 3, 0, 0, 0] 1
     = CommandResponseMessage_unpack CommandResponseMessage_init
         [9, 42, 0, 0, 0, 3, 0xAA, 0xBB, 0xCC] 1 \<and>
   length [9, 0xC8, 0x32, 0, 0 :: byte] = length [9, 0xC8, 0x32, 0xAA, 0xBB :: byte] \<and>
   MessageRequest_unpack [0, 13000] \<lparr>message_type = MessageType_member 0\<rparr>
       [9, 0xC8, 0x32, 0, 0] 1
     = MessageRequest_unpack [0, 13000] \<lparr>message_type = MessageType_member 0\<rparr>
         [9, 0xC8, 0x32, 0xAA, 0xBB] 1"
proof -
  have h1: "\<forall>i < length [9, 42, 0, 0, 0, 3, 0, 0, 0 :: byte].
      i \<notin> {nat 1 + 5, nat 1 + 6, nat 1 + 7} \<longrightarrow>
      [9, 42, 0, 0, 0, 3, 0, 0, 0 :: byte] ! i = [9, 42, 0, 0, 0, 3, 0xAA, 0xBB, 0xCC] ! i"
    by (simp add: nth_Cons' less_Suc_eq eval_nat_numeral)
  have h2: "\<forall>i < length [9, 0xC8, 0x32, 0, 0 :: byte].
      i \<notin> {nat 1 + 2, nat 1 + 3} \<longrightarrow>
      [9, 0xC8, 0x32, 0, 0 :: byte] ! i = [9, 0xC8, 0x32, 0xAA, 0xBB] ! i"
    by (simp add: nth_Cons' less_Suc_eq eval_nat_numeral)
  show ?thesis
    using h1 h2
      padding_zeroed_and_ignored [of 1 "replicate 6 255"
        "\<lparr>message_type = MessageType_member 13000\<rparr>" False
        "[9, 42, 0, 0, 0, 3, 0, 0, 0]" "[9, 42, 0, 0, 0, 3, 0xAA, 0xBB, 0xCC]"
        CommandResponseMessage_init "[0, 13000]" ResetRequest_init]
      padding_zeroed_and_ignored [of 1 "replicate 6 255"
        "\<lparr>message_type = MessageType_member 0\<rparr>" False
        "[9, 0xC8, 0x32, 0, 0]" "[9, 0xC8, 0x32, 0xAA, 0xBB]"
        CommandResponseMessage_init "[0, 13000]" ResetRequest_init]
    by simp
qed

end
